theory Spec2Isabelle
  imports Main "HOL-Library.Word" "HOL-Library.Signed_Division"
begin

unbundle bit_operations_syntax

section \<open>Machine integers of the program\<close>

text \<open>
  The program computes with the C++ type \<^verbatim>\<open>int\<close> of the RP2040 (32 bits, two's
  complement) and with the 32-bit registers of the interpolator peripheral. Both are
  32-bit words here: an \<^verbatim>\<open>int\<close> is read with \<^term>\<open>sint\<close>, a register with
  \<^term>\<open>uint\<close>, and the conversions between the two that the program performs when it
  stores an \<^verbatim>\<open>int\<close> into a register or casts a register to \<^verbatim>\<open>int\<close> keep the
  bits. Addition, subtraction and multiplication wrap modulo \<open>2 ^ 32\<close>, as the
  instructions of the target do. The program has no wider intermediate type, so a
  statement below about an arithmetic result carries the bounds under which no
  intermediate value overflows.
\<close>

type_synonym c_int = "32 word"
type_synonym io_rw_32 = "32 word"

text \<open>
  The operator \<^verbatim>\<open>/\<close> on \<^verbatim>\<open>int\<close> truncates towards zero. A division by zero has no
  result: the program has no check before it and the language defines none.
\<close>

definition c_div :: "c_int \<Rightarrow> c_int \<Rightarrow> c_int option" where
  "c_div a b = (if b = 0 then None else Some (word_of_int (sint a sdiv sint b)))"

text \<open>The operator \<^verbatim>\<open>>>\<close> on \<^verbatim>\<open>int\<close> is the arithmetic shift of the target.\<close>

definition c_shr :: "c_int \<Rightarrow> nat \<Rightarrow> c_int" where
  "c_shr a n = signed_drop_bit n a"

section \<open>The interpolator in blend mode\<close>

text \<open>
  \<^verbatim>\<open>adc_linear_interpolation\<close> enables blend mode on lane 0 of \<^verbatim>\<open>interp0\<close> and leaves
  lane 1 in the default configuration. The program writes the registers \<^verbatim>\<open>base[0]\<close>, \<^verbatim>\<open>base[1]\<close> and \<^verbatim>\<open>accum[1]\<close> and reads
  \<^verbatim>\<open>peek[1]\<close>.
\<close>

record interp_hw =
  accum1 :: io_rw_32
  base0 :: io_rw_32
  base1 :: io_rw_32

text \<open>
  The blend itself is done by the peripheral, not by code of the program. The model
  follows the program's description of it (the comments of \<^verbatim>\<open>blending\<close> and of
  \<^verbatim>\<open>adc_linear_interpolation\<close>): \<^verbatim>\<open>x = x0 + a(x1 - x0)\<close> with \<^verbatim>\<open>0 <= a < 1\<close>, where
  \<^verbatim>\<open>x0\<close> and \<^verbatim>\<open>x1\<close> are the registers \<^verbatim>\<open>base[0]\<close> and \<^verbatim>\<open>base[1]\<close> and \<^verbatim>\<open>a\<close> is the
  fraction formed from the least significant 8 bits of the lane 1 value; \<^verbatim>\<open>a\<close> "can't be
  1", the result is "close, but not quite there", "99.6% of the expected value", and the
  program corrects it by "adding 1/256". So the 8 bits \<open>n\<close> stand for the fraction
  \<open>n / 256\<close>, and \<^verbatim>\<open>peek[0]\<close> returns these 8 bits. Lane 1 keeps the configuration of
  \<^verbatim>\<open>interp_default_config()\<close>, in which the values are not signed: the base registers
  are read as unsigned 32-bit values, and the program casts \<^verbatim>\<open>peek[1]\<close> to \<^verbatim>\<open>int\<close>. The
  product is shifted right by 8 bits, and the result is a 32-bit register again.
\<close>

definition alpha :: "interp_hw \<Rightarrow> io_rw_32" where
  "alpha s = accum1 s AND 0xFF"

definition peek1 :: "interp_hw \<Rightarrow> io_rw_32" where
  "peek1 s = word_of_int (uint (base0 s) + (uint (alpha s) * (uint (base1 s) - uint (base0 s))) div 256)"

section \<open>The computation of \<^verbatim>\<open>adc_linear_interpolation\<close>\<close>

text \<open>
  The value stored into \<^verbatim>\<open>interp0->accum[1]\<close>:
  \<^verbatim>\<open>255 * (raw_val - calibrated_lo) / (calibrated_hi - calibrated_lo)\<close>.
\<close>

definition fraction :: "c_int \<Rightarrow> c_int \<Rightarrow> c_int \<Rightarrow> c_int option" where
  "fraction raw_val calibrated_lo calibrated_hi =
     c_div (255 * (raw_val - calibrated_lo)) (calibrated_hi - calibrated_lo)"

text \<open>
  The reference value computed without the interpolator:
  \<^verbatim>\<open>expected_lo + (expected_hi - expected_lo) * (raw_val - calibrated_lo) / (calibrated_hi - calibrated_lo)\<close>.
\<close>

definition software :: "c_int \<Rightarrow> c_int \<Rightarrow> c_int \<Rightarrow> c_int \<Rightarrow> c_int \<Rightarrow> c_int option" where
  "software expected_lo expected_hi calibrated_lo calibrated_hi raw_val =
     map_option (\<lambda>q. expected_lo + q)
       (c_div ((expected_hi - expected_lo) * (raw_val - calibrated_lo)) (calibrated_hi - calibrated_lo))"

text \<open>
  \<^verbatim>\<open>(int) interp0->peek[1]\<close> after \<^verbatim>\<open>base[0] = expected_lo\<close>, \<^verbatim>\<open>base[1] = expected_hi\<close> and
  \<^verbatim>\<open>accum[1] = a\<close>.
\<close>

definition hardware :: "c_int \<Rightarrow> c_int \<Rightarrow> c_int \<Rightarrow> c_int" where
  "hardware expected_lo expected_hi a =
     peek1 \<lparr>accum1 = a, base0 = expected_lo, base1 = expected_hi\<rparr>"

text \<open>\<^verbatim>\<open>hardware + (hardware >> 8)\<close>.\<close>

definition hardware_corrected :: "c_int \<Rightarrow> c_int" where
  "hardware_corrected hw = hw + c_shr hw 8"

text \<open>
  One sample: the three values that the program prints for it, or nothing when the
  divisions have no result.
\<close>

record adc_result =
  res_software :: c_int
  res_hardware :: c_int
  res_hardware_corrected :: c_int

definition adc_sample :: "c_int \<Rightarrow> c_int \<Rightarrow> c_int \<Rightarrow> c_int \<Rightarrow> c_int \<Rightarrow> adc_result option" where
  "adc_sample expected_lo expected_hi calibrated_lo calibrated_hi raw_val =
     (case fraction raw_val calibrated_lo calibrated_hi of
        None \<Rightarrow> None
      | Some a \<Rightarrow>
          (case software expected_lo expected_hi calibrated_lo calibrated_hi raw_val of
             None \<Rightarrow> None
           | Some soft \<Rightarrow>
               let hw = hardware expected_lo expected_hi a in
               Some \<lparr>res_software = soft, res_hardware = hw,
                     res_hardware_corrected = hardware_corrected hw\<rparr>))"

text \<open>
  The sample that the program computes first, with its constants:
  \<^verbatim>\<open>expected_lo = 1000\<close>, \<^verbatim>\<open>expected_hi = 3000\<close>, \<^verbatim>\<open>calibrated_lo = 900\<close>,
  \<^verbatim>\<open>calibrated_hi = 2800\<close> and \<^verbatim>\<open>raw_val = 1500\<close>.
\<close>

definition adc_first_sample :: "adc_result option" where
  "adc_first_sample = adc_sample 1000 3000 900 2800 1500"

text \<open>
  The repeated version: the loop runs \<^verbatim>\<open>adc_val\<close> from 1000 in steps of 100 while
  \<^verbatim>\<open>adc_val <= calibrated_hi\<close>, that is up to 2800, and computes the same three values
  for each \<^verbatim>\<open>adc_val\<close>. The counter stays below 2900, so it is an integer here.
\<close>

function adc_vals :: "int \<Rightarrow> int list" where
  "adc_vals adc_val = (if adc_val \<le> 2800 then adc_val # adc_vals (adc_val + 100) else [])"
  by pat_completeness auto
termination
  by (relation "measure (\<lambda>v. nat (2900 - v))") auto

definition adc_sweep :: "adc_result option list" where
  "adc_sweep = map (\<lambda>v. adc_sample 1000 3000 900 2800 (word_of_int v)) (adc_vals 1000)"

text \<open>All that \<^verbatim>\<open>adc_linear_interpolation\<close> prints, in order.\<close>

definition adc_linear_interpolation :: "adc_result option list" where
  "adc_linear_interpolation = adc_first_sample # adc_sweep"

section \<open>The sweep of \<^verbatim>\<open>blending\<close>\<close>

text \<open>
  \<^verbatim>\<open>blending\<close> sets the base registers to 500 and 1000 and prints \<^verbatim>\<open>peek[1]\<close> for the
  fractions \<^verbatim>\<open>255 * i / 6\<close>, \<^verbatim>\<open>i\<close> from 0 to 6.
\<close>

definition blending_step :: "c_int \<Rightarrow> c_int option" where
  "blending_step i = map_option (hardware 500 1000) (c_div (255 * i) 6)"

definition blending :: "c_int option list" where
  "blending = map blending_step [0, 1, 2, 3, 4, 5, 6]"

section \<open>Arithmetic of 32-bit values\<close>

text \<open>
  Reading the result of an operation on \<^verbatim>\<open>int\<close> as an integer, when it does not
  overflow; truncating division on integers; the unsigned reading of a non-negative
  \<^verbatim>\<open>int\<close> and of the 8 bits that the interpolator takes from a register.
\<close>

lemma sdiv_nonneg: "0 \<le> (p::int) \<Longrightarrow> 0 < d \<Longrightarrow> p sdiv d = p div d"
  by (simp add: signed_divide_int_def sgn_if)

lemma sdiv_neg: "(p::int) < 0 \<Longrightarrow> 0 < d \<Longrightarrow> p sdiv d = - ((- p) div d)"
  by (simp add: signed_divide_int_def sgn_if)

lemma sdiv_abs_le: "\<bar>(p::int) sdiv d\<bar> \<le> \<bar>p\<bar>"
proof (cases "d = 0")
  case True
  then show ?thesis by simp
next
  case False
  then have d: "0 < \<bar>d\<bar>" by simp
  have "\<bar>p\<bar> div \<bar>d\<bar> \<le> \<bar>p\<bar> div 1"
    by (rule zdiv_mono2) (use d in simp_all)
  then have le: "\<bar>p\<bar> div \<bar>d\<bar> \<le> \<bar>p\<bar>" by simp
  have ge: "0 \<le> \<bar>p\<bar> div \<bar>d\<bar>" using d by (simp add: pos_imp_zdiv_nonneg_iff)
  have "\<bar>p sdiv d\<bar> = \<bar>p\<bar> div \<bar>d\<bar>"
    using False ge by (cases "p = 0") (simp_all add: signed_divide_int_def abs_mult)
  then show ?thesis using le by simp
qed

lemma sdiv_pos_bounds:
  assumes d: "0 < (d::int)"
  shows "min 0 p \<le> p sdiv d \<and> p sdiv d \<le> max 0 p"
proof (cases "0 \<le> p")
  case True
  have "p div d \<le> p div 1" by (rule zdiv_mono2) (use d True in simp_all)
  moreover have "0 \<le> p div d" using d True by (simp add: pos_imp_zdiv_nonneg_iff)
  ultimately show ?thesis using True d by (simp add: sdiv_nonneg)
next
  case False
  then have n: "0 \<le> - p" by simp
  have "(- p) div d \<le> (- p) div 1" by (rule zdiv_mono2) (use d n in simp_all)
  moreover have "0 \<le> (- p) div d" using d n by (simp add: pos_imp_zdiv_nonneg_iff)
  ultimately show ?thesis using False d by (simp add: sdiv_neg)
qed

lemma div_pos_bounds:
  assumes "0 < (b::int)"
  shows "a div b * b \<le> a \<and> a < a div b * b + b"
  using div_mult_mod_eq [of a b] pos_mod_bound [OF assms, of a] pos_mod_sign [OF assms, of a]
  by linarith

lemma sint_sub32:
  "- (2 ^ 31) \<le> sint a - sint b \<Longrightarrow> sint a - sint b < 2 ^ 31 \<Longrightarrow>
     sint (a - b :: 32 word) = sint a - sint b"
  by (simp add: sint_word_ariths signed_take_bit_int_eq_self)

lemma sint_add32:
  "- (2 ^ 31) \<le> sint a + sint b \<Longrightarrow> sint a + sint b < 2 ^ 31 \<Longrightarrow>
     sint (a + b :: 32 word) = sint a + sint b"
  by (simp add: sint_word_ariths signed_take_bit_int_eq_self)

lemma sint_mult32:
  "- (2 ^ 31) \<le> sint a * sint b \<Longrightarrow> sint a * sint b < 2 ^ 31 \<Longrightarrow>
     sint (a * b :: 32 word) = sint a * sint b"
  by (simp add: sint_word_ariths signed_take_bit_int_eq_self)

lemma sint_of_int32:
  "- (2 ^ 31) \<le> (k :: int) \<Longrightarrow> k < 2 ^ 31 \<Longrightarrow> sint (word_of_int k :: 32 word) = k"
  by (simp add: signed_of_int signed_take_bit_int_eq_self)

lemma uint_nonneg32: "0 \<le> sint (w :: 32 word) \<Longrightarrow> uint w = sint w"
proof -
  assume a: "0 \<le> sint w"
  have "sint w < 2 ^ 32" using sint_lt [of w] by simp
  then have "take_bit 32 (sint w) = sint w" using a by (simp only: take_bit_int_eq_self)
  then show ?thesis by (simp add: uint_sint)
qed

lemma uint_neg32: "sint (w :: 32 word) < 0 \<Longrightarrow> uint w = sint w + 2 ^ 32"
proof -
  assume a: "sint w < 0"
  have lo: "- (2 ^ 31) \<le> sint w" using sint_ge [of w] by simp
  have "(sint w + 2 ^ 32) mod 2 ^ 32 = sint w + 2 ^ 32"
    using a lo by (intro mod_pos_pos_trivial) simp_all
  then have "sint w mod 2 ^ 32 = sint w + 2 ^ 32" by simp
  then show ?thesis by (simp add: uint_sint take_bit_eq_mod)
qed

lemma sint_of_int32_high:
  "2 ^ 31 \<le> (k :: int) \<Longrightarrow> k < 2 ^ 32 \<Longrightarrow> sint (word_of_int k :: 32 word) = k - 2 ^ 32"
proof -
  assume a: "2 ^ 31 \<le> k" "k < 2 ^ 32"
  have e: "(word_of_int (k - 2 ^ 32) :: 32 word) = word_of_int k"
    by (simp add: word_of_int_2p_len)
  have "sint (word_of_int (k - 2 ^ 32) :: 32 word) = k - 2 ^ 32"
    using a by (intro sint_of_int32) simp_all
  then show ?thesis unfolding e .
qed

lemma uint_and_255: "uint ((a :: 32 word) AND 0xFF) = uint a mod 256"
proof -
  have "(a AND 0xFF) = take_bit 8 a"
    by (simp add: take_bit_eq_mask mask_eq_exp_minus_1)
  then have "uint (a AND 0xFF) = take_bit 8 (uint a)"
    by (simp only: unsigned_take_bit_eq)
  then show ?thesis by (simp add: take_bit_eq_mod)
qed

lemma alpha_range: "0 \<le> uint ((a::32 word) AND 0xFF) \<and> uint (a AND 0xFF) \<le> 255"
  by (simp add: uint_and_255)

lemma alpha_small:
  assumes "0 \<le> sint a" and "sint a \<le> 255"
  shows "uint ((a::32 word) AND 0xFF) = sint a"
proof -
  have "uint a = sint a" using assms(1) by (rule uint_nonneg32)
  then show ?thesis using assms by (simp add: uint_and_255)
qed

subsection \<open>The fixed-point blend on integers\<close>

lemma blend_bounds:
  assumes "0 \<le> (al::int)" "al \<le> 255" "0 \<le> D"
  shows "0 \<le> (al * D) div 256 \<and> (al * D) div 256 \<le> D"
proof -
  have "al * D \<le> 256 * D" using assms by (simp add: mult_right_mono)
  then have "(al * D) div 256 \<le> (256 * D) div 256" by (rule zdiv_mono1) simp
  moreover have "0 \<le> al * D" using assms by simp
  then have "0 \<le> (al * D) div 256" by (simp add: pos_imp_zdiv_nonneg_iff)
  ultimately show ?thesis by simp
qed

lemma blend_255_less:
  assumes "0 < (d::int)"
  shows "(d * 255) div 256 < d"
proof -
  define q where "q = (d * 255) div 256"
  have "q * 256 \<le> d * 255"
    unfolding q_def using div_mult_mod_eq [of "d * 255" 256] pos_mod_sign [of 256 "d * 255"]
    by linarith
  then have "q < d" using assms by linarith
  then show ?thesis by (simp only: q_def)
qed

text \<open>
  The quantized coefficient against the exact quotient: with \<open>a = 255 * r div W\<close>, the
  part \<open>D * a div 256\<close> that the interpolator adds is at most \<open>D * r div W\<close>.
\<close>

lemma quantized_le_reference:
  assumes "0 \<le> (r::int)" and "0 < W" and "0 \<le> D"
  shows "(D * ((255 * r) div W)) div 256 \<le> (D * r) div W"
proof -
  define a where "a = (255 * r) div W"
  define X where "X = (D * a) div 256"
  have aW: "a * W \<le> 255 * r"
    using div_pos_bounds [OF assms(2), of "255 * r"] by (simp add: a_def)
  have X256: "X * 256 \<le> D * a"
    using div_pos_bounds [of 256 "D * a"] by (simp add: X_def)
  have "X * 256 * W \<le> D * a * W"
    using X256 assms(2) by (intro mult_right_mono) simp_all
  also have "\<dots> = D * (a * W)" by (simp add: mult.assoc)
  also have "\<dots> \<le> D * (255 * r)" using aW assms(3) by (intro mult_left_mono)
  also have "\<dots> \<le> D * (256 * r)" using assms(1,3) by (intro mult_left_mono) simp_all
  finally have "256 * (X * W) \<le> 256 * (D * r)" by (simp add: algebra_simps)
  then have "X * W \<le> D * r" by simp
  then have "(X * W) div W \<le> (D * r) div W" using assms(2) by (intro zdiv_mono1)
  then show ?thesis using assms(2) by (simp add: X_def a_def)
qed

section \<open>The values of the program's expressions\<close>

lemmas adc_defs = adc_first_sample_def adc_sample_def fraction_def software_def
  c_div_def hardware_def peek1_def alpha_def hardware_corrected_def c_shr_def
  signed_divide_int_def

text \<open>
  The values that \<^verbatim>\<open>blending\<close> prints. The last one, for the fraction 255, is 998 and
  not 1000: "close, but not quite there".
\<close>

lemma blending_values:
  "blending = [Some 500, Some 582, Some 666, Some 748, Some 832, Some 914, Some 998]"
  by (simp add: blending_def blending_step_def adc_defs)

text \<open>The values that the loop of \<^verbatim>\<open>adc_linear_interpolation\<close> prints.\<close>

lemma adc_vals_1000:
  "adc_vals 1000 = [1000, 1100, 1200, 1300, 1400, 1500, 1600, 1700, 1800, 1900,
                    2000, 2100, 2200, 2300, 2400, 2500, 2600, 2700, 2800]"
  by simp

lemma adc_sweep_hardware:
  "map (map_option res_hardware) adc_sweep =
     [Some 1101, Some 1203, Some 1312, Some 1414, Some 1523, Some 1625, Some 1726, Some 1835,
      Some 1937, Some 2046, Some 2148, Some 2257, Some 2359, Some 2460, Some 2570, Some 2671,
      Some 2781, Some 2882, Some 2992]"
  by (simp add: adc_sweep_def adc_vals_1000 del: adc_vals.simps) (simp add: adc_defs)

lemma adc_sweep_corrected:
  "map (map_option res_hardware_corrected) adc_sweep =
     [Some 1105, Some 1207, Some 1317, Some 1419, Some 1528, Some 1631, Some 1732, Some 1842,
      Some 1944, Some 2053, Some 2156, Some 2265, Some 2368, Some 2469, Some 2580, Some 2681,
      Some 2791, Some 2893, Some 3003]"
  by (simp add: adc_sweep_def adc_vals_1000 del: adc_vals.simps) (simp add: adc_defs)

subsection \<open>Division\<close>

lemma sint_c_div:
  assumes "sint b \<noteq> 0" and "- (2 ^ 31) < sint a \<or> 0 < sint b"
  shows "map_option sint (c_div a b) = Some (sint a sdiv sint b)"
proof -
  have b: "b \<noteq> 0" using assms(1) by auto
  have ra: "- (2 ^ 31) \<le> sint a" "sint a < 2 ^ 31"
    using sint_ge [of a] sint_lt [of a] by simp_all
  have "- (2 ^ 31) \<le> sint a sdiv sint b \<and> sint a sdiv sint b < 2 ^ 31"
  proof (cases "0 < sint b")
    case True
    from sdiv_pos_bounds [OF True, of "sint a"] ra show ?thesis by linarith
  next
    case False
    with assms(2) have "- (2 ^ 31) < sint a" by simp
    with ra sdiv_abs_le [of "sint a" "sint b"] show ?thesis by linarith
  qed
  then have "sint (word_of_int (sint a sdiv sint b) :: 32 word) = sint a sdiv sint b"
    by (simp add: signed_of_int signed_take_bit_int_eq_self)
  then show ?thesis using b by (simp add: c_div_def)
qed

subsection \<open>The coefficient\<close>

lemma sint_fraction:
  assumes "sint hi \<noteq> sint lo"
      and "- (2 ^ 31) \<le> sint hi - sint lo" and "sint hi - sint lo < 2 ^ 31"
      and "- (2 ^ 31) \<le> 255 * (sint raw - sint lo)" and "255 * (sint raw - sint lo) < 2 ^ 31"
      and "- (2 ^ 31) < 255 * (sint raw - sint lo) \<or> sint lo < sint hi"
  shows "map_option sint (fraction raw lo hi) =
           Some ((255 * (sint raw - sint lo)) sdiv (sint hi - sint lo))"
proof -
  have d: "sint (hi - lo) = sint hi - sint lo"
    using assms(2,3) by (rule sint_sub32)
  have "- (2 ^ 31) \<le> sint raw - sint lo" "sint raw - sint lo < 2 ^ 31"
    using assms(4,5) by simp_all
  then have x: "sint (raw - lo) = sint raw - sint lo" by (rule sint_sub32)
  have p: "sint (255 * (raw - lo)) = 255 * (sint raw - sint lo)"
    using sint_mult32 [of 255 "raw - lo"] assms(4,5) x by simp
  have "map_option sint (c_div (255 * (raw - lo)) (hi - lo)) =
          Some (sint (255 * (raw - lo)) sdiv sint (hi - lo))"
    by (rule sint_c_div) (use assms(1,6) d p in auto)
  then show ?thesis by (simp only: fraction_def d p)
qed

text \<open>Inside the calibrated range the coefficient lies between 0 and 255.\<close>

lemma fraction_in_range:
  assumes "sint clo \<le> sint raw" and "sint raw \<le> sint chi" and "sint clo < sint chi"
      and "sint chi - sint clo < 2 ^ 31" and "255 * (sint raw - sint clo) < 2 ^ 31"
  shows "\<exists>a. fraction raw clo chi = Some a \<and>
           sint a = (255 * (sint raw - sint clo)) div (sint chi - sint clo) \<and>
           0 \<le> sint a \<and> sint a \<le> 255"
proof -
  let ?r = "sint raw - sint clo" and ?W = "sint chi - sint clo"
  have r: "0 \<le> ?r" "?r \<le> ?W" and W: "0 < ?W" using assms by simp_all
  have le: "255 * ?r \<le> 255 * ?W" using r by simp
  have "map_option sint (fraction raw clo chi) = Some ((255 * ?r) sdiv ?W)"
    using assms(3,4,5) r by (intro sint_fraction) simp_all
  then have v: "map_option sint (fraction raw clo chi) = Some ((255 * ?r) div ?W)"
    using r W by (simp add: sdiv_nonneg)
  have lo: "0 \<le> (255 * ?r) div ?W" using r W by (simp add: pos_imp_zdiv_nonneg_iff)
  have "(255 * ?r) div ?W \<le> (255 * ?W) div ?W"
    using le W by (intro zdiv_mono1)
  moreover have "(255 * ?W) div ?W = 255" using W by (intro nonzero_mult_div_cancel_right) simp
  ultimately have hi: "(255 * ?r) div ?W \<le> 255" by (simp only:)
  show ?thesis using v lo hi by auto
qed

subsection \<open>The blend\<close>

text \<open>
  The base registers are unsigned. For endpoints of the same sign the unsigned reading
  keeps their order and their difference, and the blend read as an \<^verbatim>\<open>int\<close> is the
  blend of the two \<^verbatim>\<open>int\<close> values.
\<close>

lemma sint_hardware_nonneg:
  assumes "0 \<le> sint elo" and "sint elo \<le> sint ehi"
  shows "sint (hardware elo ehi a) =
           sint elo + (uint (a AND 0xFF) * (sint ehi - sint elo)) div 256"
proof -
  let ?v = "(uint (a AND 0xFF) * (sint ehi - sint elo)) div 256"
  have u0: "uint elo = sint elo" using assms(1) by (rule uint_nonneg32)
  have u1: "uint ehi = sint ehi" using assms by (intro uint_nonneg32) linarith
  have "0 \<le> ?v \<and> ?v \<le> sint ehi - sint elo"
    using alpha_range [of a] assms(2) by (intro blend_bounds) simp_all
  moreover have "sint ehi < 2 ^ 31" using sint_lt [of ehi] by simp
  ultimately have "- (2 ^ 31) \<le> sint elo + ?v" "sint elo + ?v < 2 ^ 31"
    using assms(1) by linarith+
  then have "sint (word_of_int (sint elo + ?v) :: 32 word) = sint elo + ?v"
    by (rule sint_of_int32)
  then show ?thesis by (simp add: hardware_def peek1_def alpha_def u0 u1)
qed

lemma sint_hardware_neg:
  assumes "sint elo \<le> sint ehi" and "sint ehi < 0"
  shows "sint (hardware elo ehi a) =
           sint elo + (uint (a AND 0xFF) * (sint ehi - sint elo)) div 256"
proof -
  let ?v = "(uint (a AND 0xFF) * (sint ehi - sint elo)) div 256"
  have u0: "uint elo = sint elo + 2 ^ 32" using assms by (intro uint_neg32) simp
  have u1: "uint ehi = sint ehi + 2 ^ 32" using assms(2) by (rule uint_neg32)
  have d: "uint ehi - uint elo = sint ehi - sint elo" by (simp add: u0 u1)
  have v: "0 \<le> ?v \<and> ?v \<le> sint ehi - sint elo"
    using alpha_range [of a] assms(1) by (intro blend_bounds) simp_all
  have "- (2 ^ 31) \<le> sint elo" using sint_ge [of elo] by simp
  then have "2 ^ 31 \<le> uint elo + ?v" "uint elo + ?v < 2 ^ 32"
    using v assms(2) by (simp_all add: u0)
  then have "sint (word_of_int (uint elo + ?v) :: 32 word) = uint elo + ?v - 2 ^ 32"
    by (rule sint_of_int32_high)
  then have "sint (word_of_int (uint elo + ?v) :: 32 word) = sint elo + ?v"
    by (simp add: u0)
  then show ?thesis by (simp only: hardware_def peek1_def alpha_def d interp_hw.simps)
qed

lemma sint_hardware:
  assumes "sint elo \<le> sint ehi" and "0 \<le> sint elo \<or> sint ehi < 0"
  shows "sint (hardware elo ehi a) =
           sint elo + (uint (a AND 0xFF) * (sint ehi - sint elo)) div 256"
  using assms sint_hardware_nonneg [of elo ehi a] sint_hardware_neg [of elo ehi a] by blast

lemma sint_hardware_small:
  assumes "0 \<le> sint a" and "sint a \<le> 255"
      and "sint elo \<le> sint ehi" and "0 \<le> sint elo \<or> sint ehi < 0"
  shows "sint (hardware elo ehi a) = sint elo + ((sint ehi - sint elo) * sint a) div 256"
proof -
  have "sint (hardware elo ehi a) =
          sint elo + (uint (a AND 0xFF) * (sint ehi - sint elo)) div 256"
    using assms(3,4) by (rule sint_hardware)
  then show ?thesis using alpha_small [OF assms(1,2)] by (simp add: mult.commute)
qed

lemma hardware_mono:
  assumes "0 \<le> sint a1" and "sint a1 \<le> sint a2" and "sint a2 \<le> 255"
      and "sint elo < sint ehi" and "0 \<le> sint elo \<or> sint ehi < 0"
  shows "sint (hardware elo ehi a1) \<le> sint (hardware elo ehi a2)"
proof -
  let ?D = "sint ehi - sint elo"
  have h1: "sint (hardware elo ehi a1) = sint elo + (?D * sint a1) div 256"
    using assms by (intro sint_hardware_small) simp_all
  have h2: "sint (hardware elo ehi a2) = sint elo + (?D * sint a2) div 256"
    using assms by (intro sint_hardware_small) simp_all
  have "?D * sint a1 \<le> ?D * sint a2" using assms by (intro mult_left_mono) simp_all
  then have "(?D * sint a1) div 256 \<le> (?D * sint a2) div 256" by (intro zdiv_mono1) simp_all
  then show ?thesis using h1 h2 by simp
qed

subsection \<open>The software value and the sample\<close>

lemma sint_software:
  assumes "sint clo \<le> sint raw" and "sint raw \<le> sint chi" and "sint clo < sint chi"
      and "sint chi - sint clo < 2 ^ 31"
      and "0 \<le> sint elo" and "sint elo < sint ehi"
      and "(sint ehi - sint elo) * (sint raw - sint clo) < 2 ^ 31"
  shows "map_option sint (software elo ehi clo chi raw) =
           Some (sint elo + ((sint ehi - sint elo) * (sint raw - sint clo)) div (sint chi - sint clo))"
proof -
  let ?r = "sint raw - sint clo" and ?W = "sint chi - sint clo" and ?D = "sint ehi - sint elo"
  have r: "0 \<le> ?r" "?r \<le> ?W" and W: "0 < ?W" and D: "0 \<le> ?D" using assms by simp_all
  have hi: "sint ehi < 2 ^ 31" using sint_lt [of ehi] by simp
  have sD: "sint (ehi - elo) = ?D" using assms(5,6) hi by (intro sint_sub32) simp_all
  have sr: "sint (raw - clo) = ?r" using r assms(4) by (intro sint_sub32) simp_all
  have sW: "sint (chi - clo) = ?W" using W assms(4) by (intro sint_sub32) simp_all
  have P: "0 \<le> ?D * ?r" using r D by simp
  have sP: "sint ((ehi - elo) * (raw - clo)) = ?D * ?r"
    using sint_mult32 [of "ehi - elo" "raw - clo"] P assms(7) by (simp only: sD sr)
  have "map_option sint (c_div ((ehi - elo) * (raw - clo)) (chi - clo)) =
          Some (sint ((ehi - elo) * (raw - clo)) sdiv sint (chi - clo))"
    using W by (intro sint_c_div) (simp_all only: sW, simp_all)
  then obtain q where q: "c_div ((ehi - elo) * (raw - clo)) (chi - clo) = Some q"
      "sint q = (?D * ?r) sdiv ?W"
    by (auto simp only: sP sW)
  have q': "sint q = (?D * ?r) div ?W" using q(2) P W by (simp only: sdiv_nonneg)
  have "?D * ?r \<le> ?D * ?W" using r D by (intro mult_left_mono) simp_all
  then have "(?D * ?r) div ?W \<le> (?D * ?W) div ?W" using W by (intro zdiv_mono1)
  moreover have "(?D * ?W) div ?W = ?D" using W by (intro nonzero_mult_div_cancel_right) simp
  moreover have "0 \<le> (?D * ?r) div ?W" using P W by (simp only: pos_imp_zdiv_nonneg_iff)
  ultimately have b: "0 \<le> sint q" "sint q \<le> ?D" by (simp_all only: q')
  have "sint (elo + q) = sint elo + sint q"
    using b assms(5) hi by (intro sint_add32) simp_all
  then show ?thesis using q(1) by (simp add: software_def q')
qed

text \<open>Both divisions of a sample have the same divisor: they have a result together.\<close>

lemma adc_sample_Some:
  assumes "fraction raw clo chi = Some a"
  shows "\<exists>soft. software elo ehi clo chi raw = Some soft \<and>
           adc_sample elo ehi clo chi raw =
             Some \<lparr>res_software = soft, res_hardware = hardware elo ehi a,
                   res_hardware_corrected = hardware_corrected (hardware elo ehi a)\<rparr>"
proof -
  have "chi - clo \<noteq> 0" using assms by (auto simp: fraction_def c_div_def split: if_splits)
  then obtain soft where "software elo ehi clo chi raw = Some soft"
    by (simp add: software_def c_div_def)
  then show ?thesis using assms by (simp add: adc_sample_def Let_def)
qed

section \<open>The blend against the stated formula\<close>

text \<open>
  Claim C1, as stated, says that the value read back from \<^verbatim>\<open>peek[1]\<close> for a coefficient
  \<open>a\<close> in \<open>[0, 255]\<close> is \<open>expected.low + (expected.high - expected.low) * a / 255\<close>.
  The interpolator divides by 256, not by 255: for \<open>a = 255\<close> and the endpoints 1000
  and 3000 of the program it returns 2992, where the stated formula gives 3000.
\<close>

theorem hardware_blend_255_counterexample:
  "sint (hardware 1000 3000 255) \<noteq> 1000 + ((3000 - 1000) * 255) div 255"
  by (simp add: hardware_def peek1_def alpha_def)

text \<open>
  Claim C1, amended: for every coefficient \<open>a\<close> in \<open>[0, 255]\<close> and every expected range
  with \<open>high > low\<close> whose endpoints have the same sign (\<open>0 \<le> low\<close> or \<open>high < 0\<close>), the
  value read back from \<^verbatim>\<open>peek[1]\<close> is \<open>low + (high - low) * a div 256\<close>; and whenever
  \<open>a\<close> is the coefficient that the program has stored for a sample, this is the
  interpolated value of that sample.
\<close>

theorem hardware_blend_256:
  assumes "0 \<le> sint a" and "sint a \<le> 255"
      and "sint expected_lo < sint expected_hi"
      and "0 \<le> sint expected_lo \<or> sint expected_hi < 0"
  shows "sint (hardware expected_lo expected_hi a) =
           sint expected_lo + ((sint expected_hi - sint expected_lo) * sint a) div 256 \<and>
         (fraction raw_val calibrated_lo calibrated_hi = Some a \<longrightarrow>
            map_option res_hardware
              (adc_sample expected_lo expected_hi calibrated_lo calibrated_hi raw_val) =
            Some (hardware expected_lo expected_hi a))"
proof (intro conjI impI)
  show "sint (hardware expected_lo expected_hi a) =
          sint expected_lo + ((sint expected_hi - sint expected_lo) * sint a) div 256"
    using assms by (intro sint_hardware_small) simp_all
next
  assume "fraction raw_val calibrated_lo calibrated_hi = Some a"
  then show "map_option res_hardware
      (adc_sample expected_lo expected_hi calibrated_lo calibrated_hi raw_val) =
      Some (hardware expected_lo expected_hi a)"
    using adc_sample_Some [of raw_val calibrated_lo calibrated_hi a expected_lo expected_hi]
    by auto
qed

theorem hardware_blend_256_witness:
  "sint (hardware 1000 3000 255) = 1000 + ((3000 - 1000) * 255) div 256 \<and>
   map_option res_hardware (adc_sample 1000 3000 900 2800 2800) = Some (hardware 1000 3000 255)"
proof -
  have "fraction 2800 900 2800 = Some 255"
    by (simp add: fraction_def c_div_def signed_divide_int_def)
  then show ?thesis using hardware_blend_256 [of 255 1000 3000 2800 900 2800] by simp
qed

section \<open>The coefficient against the stated formula\<close>

text \<open>
  Claim C2, as stated, says that the value stored into the fraction register is the floor
  of \<open>255 * (raw - low) / (high - low)\<close> for every raw sample. The division of the
  program truncates towards zero, so below the calibrated range it rounds up: for the
  sample 800 and the range 900 to 2800 it stores \<open>-13\<close>, where the floor is \<open>-14\<close>.
\<close>

theorem fraction_floor_counterexample:
  "map_option sint (fraction 800 900 2800) \<noteq> Some ((255 * (800 - 900)) div (2800 - 900))"
  by (simp add: fraction_def c_div_def signed_divide_int_def)

text \<open>
  Claim C2, amended: for every raw sample and every calibrated range with \<open>high > low\<close>,
  where \<open>high - low\<close> and \<open>255 * (raw - low)\<close> fit an \<^verbatim>\<open>int\<close>, the value stored into
  the fraction register is the quotient of \<open>255 * (raw - low)\<close> by \<open>high - low\<close> truncated
  towards zero. It is the floor of the quotient when \<open>raw \<ge> low\<close>, and the negated
  floor of \<open>255 * (low - raw) / (high - low)\<close> when \<open>raw < low\<close>.
\<close>

theorem fraction_truncates:
  assumes "sint calibrated_lo < sint calibrated_hi"
      and "sint calibrated_hi - sint calibrated_lo < 2 ^ 31"
      and "- (2 ^ 31) \<le> 255 * (sint raw_val - sint calibrated_lo)"
      and "255 * (sint raw_val - sint calibrated_lo) < 2 ^ 31"
  shows "map_option sint (fraction raw_val calibrated_lo calibrated_hi) =
           Some ((255 * (sint raw_val - sint calibrated_lo)) sdiv (sint calibrated_hi - sint calibrated_lo))
         \<and> (sint calibrated_lo \<le> sint raw_val \<longrightarrow>
              (255 * (sint raw_val - sint calibrated_lo)) sdiv (sint calibrated_hi - sint calibrated_lo) =
              (255 * (sint raw_val - sint calibrated_lo)) div (sint calibrated_hi - sint calibrated_lo))
         \<and> (sint raw_val < sint calibrated_lo \<longrightarrow>
              (255 * (sint raw_val - sint calibrated_lo)) sdiv (sint calibrated_hi - sint calibrated_lo) =
              - ((255 * (sint calibrated_lo - sint raw_val)) div (sint calibrated_hi - sint calibrated_lo)))"
proof (intro conjI impI)
  show "map_option sint (fraction raw_val calibrated_lo calibrated_hi) =
          Some ((255 * (sint raw_val - sint calibrated_lo)) sdiv (sint calibrated_hi - sint calibrated_lo))"
    using assms by (intro sint_fraction) simp_all
next
  assume "sint calibrated_lo \<le> sint raw_val"
  then show "(255 * (sint raw_val - sint calibrated_lo)) sdiv (sint calibrated_hi - sint calibrated_lo) =
        (255 * (sint raw_val - sint calibrated_lo)) div (sint calibrated_hi - sint calibrated_lo)"
    using assms(1) by (intro sdiv_nonneg) simp_all
next
  assume "sint raw_val < sint calibrated_lo"
  then have "(255 * (sint raw_val - sint calibrated_lo)) sdiv (sint calibrated_hi - sint calibrated_lo) =
        - ((- (255 * (sint raw_val - sint calibrated_lo))) div (sint calibrated_hi - sint calibrated_lo))"
    using assms(1) by (intro sdiv_neg) simp_all
  then show "(255 * (sint raw_val - sint calibrated_lo)) sdiv (sint calibrated_hi - sint calibrated_lo) =
        - ((255 * (sint calibrated_lo - sint raw_val)) div (sint calibrated_hi - sint calibrated_lo))"
    by (simp add: algebra_simps)
qed

theorem fraction_truncates_witness:
  "map_option sint (fraction 800 900 2800) = Some (- 13)"
  using fraction_truncates [of 900 2800 800] by (simp add: signed_divide_int_def)

section \<open>The correction against the stated equivalence\<close>

text \<open>
  Claim C3, as stated, says that \<open>raw_value + (raw_value >> 8)\<close> equals
  \<open>raw_value + raw_value / 255\<close> for every non-negative \<open>raw_value\<close>. The shift divides
  by 256: at 255 the correction adds nothing, where the division by 255 adds 1.
\<close>

theorem hardware_corrected_255_counterexample:
  "sint (hardware_corrected 255) \<noteq> 255 + 255 div 255"
  by (simp add: hardware_corrected_def c_shr_def)

text \<open>
  Claim C3, amended: for every non-negative \<open>raw_value\<close> whose corrected value fits an
  \<^verbatim>\<open>int\<close>, \<open>raw_value + (raw_value >> 8)\<close> equals \<open>raw_value + raw_value div 256\<close>.
\<close>

theorem hardware_corrected_256:
  assumes "0 \<le> sint hw" and "sint hw + sint hw div 256 < 2 ^ 31"
  shows "sint (hardware_corrected hw) = sint hw + sint hw div 256"
proof -
  have s: "sint (c_shr hw 8) = sint hw div 256"
    by (simp add: c_shr_def sint_signed_drop_bit_eq drop_bit_eq_div)
  have "0 \<le> sint hw div 256" using assms(1) by (simp add: pos_imp_zdiv_nonneg_iff)
  then have "sint (hw + c_shr hw 8) = sint hw + sint (c_shr hw 8)"
    using assms s by (intro sint_add32) simp_all
  then show ?thesis by (simp add: hardware_corrected_def s)
qed

theorem hardware_corrected_256_witness:
  "sint (hardware_corrected 1625) = 1631"
  using hardware_corrected_256 [of 1625] by simp

section \<open>Degenerate ranges\<close>

text \<open>
  Claim C4, as stated, says that for a degenerate range (\<open>high \<le> low\<close>) the coefficient
  and the blend fail with a domain error instead of returning a value, in particular for
  the expected range 100 to 100. The program checks neither range and has no error to
  raise: the blend of the expected range 100 to 100 is 100, and the coefficient of the
  sample 1500 in the reversed calibrated range 2800 to 900 is 174.
\<close>

theorem degenerate_range_counterexample:
  "hardware 100 100 80 = 100 \<and> fraction 1500 2800 900 = Some 174"
  by (simp add: adc_defs)

text \<open>
  Claim C4, amended: the program validates no range and raises no error. The blend
  returns a value for every expected range, and for \<open>high = low\<close> that value is \<open>low\<close>,
  whatever the coefficient. For a calibrated range with \<open>high < low\<close> the coefficient is
  the quotient of \<open>255 * (raw - low)\<close> by \<open>high - low\<close> truncated towards zero, where
  \<open>high - low\<close> and \<open>255 * (raw - low)\<close> fit an \<^verbatim>\<open>int\<close>.
\<close>

theorem degenerate_range_values:
  assumes "sint calibrated_hi < sint calibrated_lo"
      and "- (2 ^ 31) \<le> sint calibrated_hi - sint calibrated_lo"
      and "- (2 ^ 31) < 255 * (sint raw_val - sint calibrated_lo)"
      and "255 * (sint raw_val - sint calibrated_lo) < 2 ^ 31"
  shows "hardware expected expected a = expected \<and>
         map_option sint (fraction raw_val calibrated_lo calibrated_hi) =
           Some ((255 * (sint raw_val - sint calibrated_lo)) sdiv (sint calibrated_hi - sint calibrated_lo))"
proof -
  have "hardware expected expected a = expected"
    by (simp add: hardware_def peek1_def)
  moreover have "map_option sint (fraction raw_val calibrated_lo calibrated_hi) =
      Some ((255 * (sint raw_val - sint calibrated_lo)) sdiv (sint calibrated_hi - sint calibrated_lo))"
    using assms by (intro sint_fraction) simp_all
  ultimately show ?thesis by simp
qed

theorem degenerate_range_values_witness:
  "hardware 100 100 80 = 100 \<and> map_option sint (fraction 1500 2800 900) = Some 174"
  using degenerate_range_values [of 900 2800 1500 100 80] by (simp add: signed_divide_int_def)

section \<open>The constants of the program\<close>

text \<open>
  Claim C5, as stated, says that for the calibrated range 900 to 2800, the expected range
  1000 to 3000 and the sample 1500 the interpolated value is 1627 and the corrected value
  1633. Those are the values of a blend that divides by 255; the program reads 1625 from
  the interpolator and corrects it to 1631.
\<close>

theorem reference_scenario_counterexample:
  "map_option res_hardware adc_first_sample \<noteq> Some 1627 \<and>
   map_option res_hardware_corrected adc_first_sample \<noteq> Some 1633"
  by (simp add: adc_defs)

text \<open>
  Claim C5, amended: for the constants of the program the coefficient is 80, the
  interpolated value is 1625 and the corrected value is 1631, which is also the value
  computed without the interpolator.
\<close>

theorem reference_scenario:
  "fraction 1500 900 2800 = Some 80 \<and>
   adc_first_sample =
     Some \<lparr>res_software = 1631, res_hardware = 1625, res_hardware_corrected = 1631\<rparr>"
  by (simp add: adc_defs)

section \<open>Monotonicity\<close>

text \<open>
  Claim C6, as stated, says that for fixed ranges the interpolated value never decreases
  when the raw sample increases. The interpolator takes only the 8 least significant bits
  of the coefficient, so the value falls back once the sample leaves the calibrated
  range: with the ranges of the program the sample 2800 gives 2992 and the greater sample
  2810, whose coefficient is 256, gives 1000.
\<close>

theorem sweep_counterexample:
  "sint (2800 :: c_int) \<le> sint (2810 :: c_int) \<and>
   map_option res_hardware (adc_sample 1000 3000 900 2800 2800) = Some 2992 \<and>
   map_option res_hardware (adc_sample 1000 3000 900 2800 2810) = Some 1000 \<and>
   \<not> sint (2992 :: c_int) \<le> sint (1000 :: c_int)"
  by (simp add: adc_defs)

text \<open>
  Claim C6, amended: for a calibrated range with \<open>high > low\<close> and an expected range
  with \<open>high > low\<close> whose endpoints have the same sign (\<open>0 \<le> low\<close> or \<open>high < 0\<close>),
  the interpolated value does not decrease when the raw sample increases within the
  calibrated range, where \<open>high - low\<close> of the calibrated range and
  \<open>255 * (raw - low)\<close> of the greater sample fit an \<^verbatim>\<open>int\<close>.
\<close>

theorem hardware_monotone_in_range:
  assumes "sint calibrated_lo \<le> sint raw1" and "sint raw1 \<le> sint raw2"
      and "sint raw2 \<le> sint calibrated_hi" and "sint calibrated_lo < sint calibrated_hi"
      and "sint calibrated_hi - sint calibrated_lo < 2 ^ 31"
      and "255 * (sint raw2 - sint calibrated_lo) < 2 ^ 31"
      and "sint expected_lo < sint expected_hi"
      and "0 \<le> sint expected_lo \<or> sint expected_hi < 0"
  shows "\<exists>s1 s2.
           adc_sample expected_lo expected_hi calibrated_lo calibrated_hi raw1 = Some s1 \<and>
           adc_sample expected_lo expected_hi calibrated_lo calibrated_hi raw2 = Some s2 \<and>
           sint (res_hardware s1) \<le> sint (res_hardware s2)"
proof -
  let ?W = "sint calibrated_hi - sint calibrated_lo"
  have W31: "?W < 2 ^ 31" by (rule assms(5))
  have r2: "255 * (sint raw2 - sint calibrated_lo) < 2 ^ 31" by (rule assms(6))
  have r1: "255 * (sint raw1 - sint calibrated_lo) < 2 ^ 31" using assms(2) r2 by simp
  obtain a1 where a1: "fraction raw1 calibrated_lo calibrated_hi = Some a1"
      "sint a1 = (255 * (sint raw1 - sint calibrated_lo)) div ?W" "0 \<le> sint a1"
    using fraction_in_range [of calibrated_lo raw1 calibrated_hi] assms W31 r1 by auto
  obtain a2 where a2: "fraction raw2 calibrated_lo calibrated_hi = Some a2"
      "sint a2 = (255 * (sint raw2 - sint calibrated_lo)) div ?W" "sint a2 \<le> 255"
    using fraction_in_range [of calibrated_lo raw2 calibrated_hi] assms W31 r2 by auto
  have "255 * (sint raw1 - sint calibrated_lo) \<le> 255 * (sint raw2 - sint calibrated_lo)"
    using assms(2) by simp
  then have "sint a1 \<le> sint a2"
    unfolding a1(2) a2(2) using assms(4) by (intro zdiv_mono1) simp_all
  then have le: "sint (hardware expected_lo expected_hi a1) \<le> sint (hardware expected_lo expected_hi a2)"
    using a1(3) a2(3) assms(7,8) by (intro hardware_mono) simp_all
  obtain s1 where s1: "adc_sample expected_lo expected_hi calibrated_lo calibrated_hi raw1 = Some s1"
      "res_hardware s1 = hardware expected_lo expected_hi a1"
    using adc_sample_Some [OF a1(1), of expected_lo expected_hi] by auto
  obtain s2 where s2: "adc_sample expected_lo expected_hi calibrated_lo calibrated_hi raw2 = Some s2"
      "res_hardware s2 = hardware expected_lo expected_hi a2"
    using adc_sample_Some [OF a2(1), of expected_lo expected_hi] by auto
  show ?thesis using s1 s2 le by simp
qed

theorem hardware_monotone_in_range_witness:
  "\<exists>s1 s2. adc_sample 1000 3000 900 2800 1500 = Some s1 \<and>
           adc_sample 1000 3000 900 2800 1600 = Some s2 \<and>
           sint (res_hardware s1) \<le> sint (res_hardware s2)"
  using hardware_monotone_in_range [of 900 1500 1600 2800 1000 3000] by simp

section \<open>The endpoints\<close>

text \<open>
  Claim C7: for every calibrated range with \<open>high > low\<close> the coefficient of the sample
  \<open>low\<close> is 0, and for every expected range with \<open>high > low\<close> the blend with the
  coefficient 0 is exactly the lower end of the expected range.
\<close>

theorem lower_endpoint:
  assumes "sint calibrated_lo < sint calibrated_hi" and "sint expected_lo < sint expected_hi"
  shows "fraction calibrated_lo calibrated_lo calibrated_hi = Some 0 \<and>
         hardware expected_lo expected_hi 0 = expected_lo"
proof -
  have "calibrated_hi - calibrated_lo \<noteq> 0" using assms(1) by auto
  then have "fraction calibrated_lo calibrated_lo calibrated_hi = Some 0"
    by (simp add: fraction_def c_div_def)
  moreover have "hardware expected_lo expected_hi 0 = expected_lo"
    by (simp add: hardware_def peek1_def alpha_def)
  ultimately show ?thesis by simp
qed

theorem lower_endpoint_witness:
  "fraction 900 900 2800 = Some 0 \<and> hardware 1000 3000 0 = 1000"
  using lower_endpoint [of 900 2800 1000 3000] by simp

text \<open>
  Claim C8, as stated, says that for every calibrated range with \<open>high > low\<close> the
  coefficient of the sample \<open>high\<close> is 255, and that for every expected range with
  \<open>high > low\<close> the blend with the coefficient 255 never exceeds the upper end of the
  range. The product \<open>255 * (high - low)\<close> is an \<^verbatim>\<open>int\<close>: for the calibrated range 0 to
  10000000 it wraps, and the coefficient of the sample 10000000 is \<open>-174\<close>. The
  interpolator reads its base registers as unsigned values, so a range from a negative to
  a positive value is blended from the larger to the smaller register: for the range
  \<open>-1000\<close> to 1000 the coefficient 255 gives 16778208.
\<close>

theorem upper_endpoint_counterexample:
  "sint (0 :: c_int) < sint (10000000 :: c_int) \<and>
   map_option sint (fraction 10000000 0 10000000) = Some (- 174) \<and>
   sint (- 1000 :: c_int) < sint (1000 :: c_int) \<and>
   sint (1000 :: c_int) < sint (hardware (- 1000) 1000 255)"
  by (simp add: fraction_def c_div_def signed_divide_int_def hardware_def peek1_def alpha_def)

text \<open>
  Claim C8, amended: for every calibrated range with \<open>high > low\<close>, where
  \<open>255 * (high - low)\<close> fits an \<^verbatim>\<open>int\<close>, the coefficient of the sample \<open>high\<close> is 255;
  for every expected range with \<open>high > low\<close> whose endpoints have the same sign
  (\<open>0 \<le> low\<close> or \<open>high < 0\<close>), the blend with the coefficient 255 is
  \<open>low + (high - low) * 255 div 256\<close>, which is less than \<open>high\<close>.
\<close>

theorem upper_endpoint:
  assumes "sint calibrated_lo < sint calibrated_hi"
      and "255 * (sint calibrated_hi - sint calibrated_lo) < 2 ^ 31"
      and "sint expected_lo < sint expected_hi"
      and "0 \<le> sint expected_lo \<or> sint expected_hi < 0"
  shows "fraction calibrated_hi calibrated_lo calibrated_hi = Some 255 \<and>
         sint (hardware expected_lo expected_hi 255) =
           sint expected_lo + ((sint expected_hi - sint expected_lo) * 255) div 256 \<and>
         sint (hardware expected_lo expected_hi 255) < sint expected_hi"
proof -
  let ?W = "sint calibrated_hi - sint calibrated_lo"
  let ?D = "sint expected_hi - sint expected_lo"
  have W31: "?W < 2 ^ 31" using assms(1,2) by simp
  obtain a where a: "fraction calibrated_hi calibrated_lo calibrated_hi = Some a"
      "sint a = (255 * ?W) div ?W"
    using fraction_in_range [of calibrated_lo calibrated_hi calibrated_hi] assms(1,2) W31 by auto
  have "(255 * ?W) div ?W = 255" using assms(1) by (intro nonzero_mult_div_cancel_right) simp
  then have "sint a = sint (255 :: c_int)" using a(2) by simp
  then have "a = 255" by (rule signed_word_eqI)
  then have f: "fraction calibrated_hi calibrated_lo calibrated_hi = Some 255" using a(1) by simp
  have h: "sint (hardware expected_lo expected_hi 255) = sint expected_lo + (?D * 255) div 256"
    using sint_hardware_small [of 255 expected_lo expected_hi] assms(3,4) by simp
  have "0 < ?D" using assms(3) by simp
  then have "(?D * 255) div 256 < ?D" by (rule blend_255_less)
  then show ?thesis using f h by simp
qed

theorem upper_endpoint_witness:
  "fraction 2800 900 2800 = Some 255 \<and> sint (hardware 1000 3000 255) = 2992 \<and>
   sint (hardware 1000 3000 255) < 3000"
  using upper_endpoint [of 900 2800 1000 3000] by simp

section \<open>The correction can leave the expected range\<close>

text \<open>
  Claim C9: a sample inside the calibrated range can be corrected to a value above the
  expected range. With the ranges of the program the sample 2800, the upper end of the
  calibrated range, gives the interpolated value 2992 and the corrected value 3003, which
  is greater than 3000.
\<close>

theorem corrected_exceeds_expected_hi:
  "sint (900 :: c_int) \<le> sint (2800 :: c_int) \<and> sint (2800 :: c_int) \<le> sint (2800 :: c_int) \<and>
   adc_sample 1000 3000 900 2800 2800 =
     Some \<lparr>res_software = 3000, res_hardware = 2992, res_hardware_corrected = 3003\<rparr> \<and>
   sint (3000 :: c_int) < sint (3003 :: c_int)"
  by (simp add: adc_defs)

section \<open>The interpolated value against the software value\<close>

text \<open>
  Claim C10, as stated, says that for every raw sample inside the calibrated range and
  every pair of ranges with \<open>high > low\<close> and non-negative endpoints the interpolated
  value is at most the value that the program computes without the interpolator. The
  two products of the program are of type \<^verbatim>\<open>int\<close> and wrap. For the calibrated range 0
  to 4095, the expected range 0 to 1000000 and the sample 4000 the product
  \<open>(expected.high - expected.low) * (raw - calibrated.low)\<close> wraps: the software value is
  \<open>-72031\<close> and the interpolated value 972656. For the calibrated range 0 to 2147483521,
  the expected range 0 to 254 and the sample 8421505 the product
  \<open>255 * (raw - calibrated.low)\<close> wraps: the stored coefficient is \<open>-1\<close>, the interpolator
  takes its low 8 bits, 255, and returns 253, where the software value is 0.
\<close>

theorem hardware_le_software_counterexample:
  "map_option res_software (adc_sample 0 1000000 0 4095 4000) = Some (- 72031) \<and>
   map_option res_hardware (adc_sample 0 1000000 0 4095 4000) = Some 972656 \<and>
   \<not> sint (972656 :: c_int) \<le> sint (- 72031 :: c_int) \<and>
   map_option res_software (adc_sample 0 254 0 2147483521 8421505) = Some 0 \<and>
   map_option res_hardware (adc_sample 0 254 0 2147483521 8421505) = Some 253 \<and>
   \<not> sint (253 :: c_int) \<le> sint (0 :: c_int)"
  by (simp add: adc_defs)

text \<open>
  Claim C10, amended: for every raw sample inside the calibrated range and every pair of
  ranges with \<open>high > low\<close> and non-negative endpoints, where the two products of the
  program, \<open>255 * (raw - calibrated.low)\<close> and
  \<open>(expected.high - expected.low) * (raw - calibrated.low)\<close>, fit an \<^verbatim>\<open>int\<close>, the
  interpolated value (not yet corrected) is at most the value that the program computes
  without the interpolator, which is \<open>expected.low + (expected.high - expected.low) *
  (raw - calibrated.low) div (calibrated.high - calibrated.low)\<close>.
\<close>

theorem hardware_le_software:
  assumes "0 \<le> sint calibrated_lo" and "sint calibrated_lo \<le> sint raw_val"
      and "sint raw_val \<le> sint calibrated_hi" and "sint calibrated_lo < sint calibrated_hi"
      and "0 \<le> sint expected_lo" and "sint expected_lo < sint expected_hi"
      and "255 * (sint raw_val - sint calibrated_lo) < 2 ^ 31"
      and "(sint expected_hi - sint expected_lo) * (sint raw_val - sint calibrated_lo) < 2 ^ 31"
  shows "\<exists>s. adc_sample expected_lo expected_hi calibrated_lo calibrated_hi raw_val = Some s \<and>
           sint (res_software s) =
             sint expected_lo + ((sint expected_hi - sint expected_lo) * (sint raw_val - sint calibrated_lo))
                                  div (sint calibrated_hi - sint calibrated_lo) \<and>
           sint (res_hardware s) \<le> sint (res_software s)"
proof -
  let ?r = "sint raw_val - sint calibrated_lo" and ?W = "sint calibrated_hi - sint calibrated_lo"
  let ?D = "sint expected_hi - sint expected_lo"
  have "sint calibrated_hi < 2 ^ 31" using sint_lt [of calibrated_hi] by simp
  then have W31: "?W < 2 ^ 31" using assms(1) by simp
  obtain a where a: "fraction raw_val calibrated_lo calibrated_hi = Some a"
      "sint a = (255 * ?r) div ?W" "0 \<le> sint a" "sint a \<le> 255"
    using fraction_in_range [of calibrated_lo raw_val calibrated_hi] assms W31 by auto
  obtain soft where s: "software expected_lo expected_hi calibrated_lo calibrated_hi raw_val = Some soft"
      "adc_sample expected_lo expected_hi calibrated_lo calibrated_hi raw_val =
         Some \<lparr>res_software = soft, res_hardware = hardware expected_lo expected_hi a,
               res_hardware_corrected = hardware_corrected (hardware expected_lo expected_hi a)\<rparr>"
    using adc_sample_Some [OF a(1), of expected_lo expected_hi] by auto
  have "map_option sint (software expected_lo expected_hi calibrated_lo calibrated_hi raw_val) =
          Some (sint expected_lo + (?D * ?r) div ?W)"
    using assms W31 by (intro sint_software) simp_all
  then have soft: "sint soft = sint expected_lo + (?D * ?r) div ?W" using s(1) by simp
  have hw: "sint (hardware expected_lo expected_hi a) = sint expected_lo + (?D * sint a) div 256"
    using a(3,4) assms(5,6) by (intro sint_hardware_small) simp_all
  have "(?D * ((255 * ?r) div ?W)) div 256 \<le> (?D * ?r) div ?W"
    using assms by (intro quantized_le_reference) simp_all
  then have "sint (hardware expected_lo expected_hi a) \<le> sint soft"
    by (simp only: hw soft a(2))
  then show ?thesis using s(2) soft by simp
qed

theorem hardware_le_software_witness:
  "\<exists>s. adc_sample 1000 3000 900 2800 1500 = Some s \<and>
        sint (res_software s) = 1000 + ((3000 - 1000) * (1500 - 900)) div (2800 - 900) \<and>
        sint (res_hardware s) \<le> sint (res_software s)"
  using hardware_le_software [of 900 1500 2800 1000 3000] by simp

end
